theory Spec2Isabelle
  imports Complex_Main "HOL-Library.AList"
begin

section \<open>Text primitives\<close>

text \<open>
  Schema text is modelled as a list of ASCII characters. The helpers below are the
  Python \<^verbatim>\<open>str\<close> methods the parser calls, restricted to ASCII: characters above
  127 are neither whitespace nor word characters and have no case.
\<close>

definition LF :: char where "LF = CHR 0x0A"
definition CR :: char where "CR = CHR 0x0D"

definition is_space :: "char \<Rightarrow> bool" where
  "is_space c = (c \<in> set [CHR 0x09, CHR 0x0A, CHR 0x0B, CHR 0x0C, CHR 0x0D,
                            CHR 0x1C, CHR 0x1D, CHR 0x1E, CHR 0x1F, CHR 0x20])"

definition is_digit :: "char \<Rightarrow> bool" where
  "is_digit c = (c \<in> set ''0123456789'')"

definition lowers :: string where "lowers = ''abcdefghijklmnopqrstuvwxyz''"
definition uppers :: string where "uppers = ''ABCDEFGHIJKLMNOPQRSTUVWXYZ''"

definition is_word :: "char \<Rightarrow> bool" where
  "is_word c = (c \<in> set lowers \<or> c \<in> set uppers \<or> is_digit c \<or> c = CHR ''_'')"

definition to_lower :: "char \<Rightarrow> char" where
  "to_lower c = (case map_of (zip uppers lowers) c of Some l \<Rightarrow> l | None \<Rightarrow> c)"

definition to_upper :: "char \<Rightarrow> char" where
  "to_upper c = (case map_of (zip lowers uppers) c of Some u \<Rightarrow> u | None \<Rightarrow> c)"

definition lower :: "string \<Rightarrow> string" where "lower s = map to_lower s"
definition upper :: "string \<Rightarrow> string" where "upper s = map to_upper s"

definition strip_chars :: "(char \<Rightarrow> bool) \<Rightarrow> string \<Rightarrow> string" where
  "strip_chars p s = rev (dropWhile p (rev (dropWhile p s)))"

definition strip :: "string \<Rightarrow> string" where
  "strip s = strip_chars is_space s"

fun startswith :: "string \<Rightarrow> string \<Rightarrow> bool" where
  "startswith s [] = True"
| "startswith [] (p # ps) = False"
| "startswith (c # cs) (p # ps) = (c = p \<and> startswith cs ps)"

text \<open>\<^verbatim>\<open>sub in s\<close> on strings.\<close>

fun contains :: "string \<Rightarrow> string \<Rightarrow> bool" where
  "contains [] sub = (sub = [])"
| "contains (c # cs) sub = (startswith (c # cs) sub \<or> contains cs sub)"

definition replace_char :: "char \<Rightarrow> string \<Rightarrow> string" where
  "replace_char x s = filter (\<lambda>c. c \<noteq> x) s"

fun join :: "string \<Rightarrow> string list \<Rightarrow> string" where
  "join sep [] = []"
| "join sep [x] = x"
| "join sep (x # y # ys) = x @ sep @ join sep (y # ys)"

text \<open>
  \<^verbatim>\<open>str.splitlines()\<close>: a line ends at \<^verbatim>\<open>\n\<close>, \<^verbatim>\<open>\r\<close>, \<^verbatim>\<open>\r\n\<close>, \<^verbatim>\<open>\v\<close>, \<^verbatim>\<open>\f\<close>,
  \<^verbatim>\<open>\x1c\<close>, \<^verbatim>\<open>\x1d\<close> or \<^verbatim>\<open>\x1e\<close>; the terminators are dropped and a trailing
  terminator opens no empty last line. The first argument is the current line, reversed.
\<close>

definition is_linebreak :: "char \<Rightarrow> bool" where
  "is_linebreak c = (c \<in> set [CHR 0x0A, CHR 0x0B, CHR 0x0C, CHR 0x1C, CHR 0x1D, CHR 0x1E])"

fun splitlines_from :: "string \<Rightarrow> string \<Rightarrow> string list" where
  "splitlines_from cur [] = (if cur = [] then [] else [rev cur])"
| "splitlines_from cur (c # cs) =
     (if c = CR then
        (case cs of
           [] \<Rightarrow> [rev cur]
         | d # ds \<Rightarrow> if d = LF then rev cur # splitlines_from [] ds
                     else rev cur # splitlines_from [] (d # ds))
      else if is_linebreak c then rev cur # splitlines_from [] cs
      else splitlines_from (c # cur) cs)"

definition splitlines :: "string \<Rightarrow> string list" where
  "splitlines s = splitlines_from [] s"

section \<open>Regular expressions with backtracking\<close>

text \<open>
  The parser's patterns are values of \<open>regex\<close>, and \<open>rmatch\<close> is a backtracking
  matcher with the priorities of Python's \<^verbatim>\<open>re\<close>: the left alternative first, a
  greedy repetition longest first, a lazy one shortest first. Repetition is over a
  character class, which is all the patterns of the parser need. What is still to be
  matched after the current expression is kept on a stack; \<open>GrpEnd n s\<close> on the stack
  closes capture group \<open>n\<close>, which was opened when the subject still to read was \<open>s\<close>.
  The matcher carries the character before the current position (\<open>None\<close> at the start
  of the subject) for the anchors, and the capture groups found so far. It returns the
  character before the end of the match, the subject after the match and the groups.
\<close>

datatype regex =
    Cls "char \<Rightarrow> bool"
  | Eps
  | Seq regex regex
  | Alt regex regex
  | Star "char \<Rightarrow> bool"
  | LazyStar "char \<Rightarrow> bool"
  | Grp nat regex
  | Bos
  | BolM
  | Eos
  | EolM

datatype item = Rx regex | GrpEnd nat string

type_synonym caps = "nat \<rightharpoonup> string"

fun cost :: "regex \<Rightarrow> nat" where
  "cost (Seq a b) = cost a + cost b + 1"
| "cost (Alt a b) = cost a + cost b + 1"
| "cost (Grp n a) = cost a + 2"
| "cost r = 1"

fun item_cost :: "item \<Rightarrow> nat" where
  "item_cost (Rx r) = cost r"
| "item_cost (GrpEnd n s) = 1"

function rmatch :: "item list \<Rightarrow> char option \<Rightarrow> string \<Rightarrow> caps \<Rightarrow>
    (char option \<times> string \<times> caps) option" where
  "rmatch [] pv s c = Some (pv, s, c)"
| "rmatch (GrpEnd n s0 # k) pv s c =
     rmatch k pv s (c(n \<mapsto> take (length s0 - length s) s0))"
| "rmatch (Rx (Cls p) # k) pv [] c = None"
| "rmatch (Rx (Cls p) # k) pv (x # xs) c = (if p x then rmatch k (Some x) xs c else None)"
| "rmatch (Rx Eps # k) pv s c = rmatch k pv s c"
| "rmatch (Rx (Seq a b) # k) pv s c = rmatch (Rx a # Rx b # k) pv s c"
| "rmatch (Rx (Alt a b) # k) pv s c =
     (case rmatch (Rx a # k) pv s c of
        Some r \<Rightarrow> Some r
      | None \<Rightarrow> rmatch (Rx b # k) pv s c)"
| "rmatch (Rx (Star p) # k) pv [] c = rmatch k pv [] c"
| "rmatch (Rx (Star p) # k) pv (x # xs) c =
     (if p x then
        (case rmatch (Rx (Star p) # k) (Some x) xs c of
           Some r \<Rightarrow> Some r
         | None \<Rightarrow> rmatch k pv (x # xs) c)
      else rmatch k pv (x # xs) c)"
| "rmatch (Rx (LazyStar p) # k) pv [] c = rmatch k pv [] c"
| "rmatch (Rx (LazyStar p) # k) pv (x # xs) c =
     (case rmatch k pv (x # xs) c of
        Some r \<Rightarrow> Some r
      | None \<Rightarrow> if p x then rmatch (Rx (LazyStar p) # k) (Some x) xs c else None)"
| "rmatch (Rx (Grp n a) # k) pv s c = rmatch (Rx a # GrpEnd n s # k) pv s c"
| "rmatch (Rx Bos # k) pv s c = (if pv = None then rmatch k pv s c else None)"
| "rmatch (Rx BolM # k) pv s c = (if pv = None \<or> pv = Some LF then rmatch k pv s c else None)"
| "rmatch (Rx Eos # k) pv s c = (if s = [] \<or> s = [LF] then rmatch k pv s c else None)"
| "rmatch (Rx EolM # k) pv [] c = rmatch k pv [] c"
| "rmatch (Rx EolM # k) pv (x # xs) c = (if x = LF then rmatch k pv (x # xs) c else None)"
  by pat_completeness auto
termination
  by (relation "inv_image (less_than <*lex*> less_than)
                  (\<lambda>(k, pv, s, c). (sum_list (map item_cost k), length s))") auto

definition seqs :: "regex list \<Rightarrow> regex" where
  "seqs rs = foldr Seq rs Eps"

definition chr :: "char \<Rightarrow> regex" where
  "chr x = Cls (\<lambda>c. c = x)"

text \<open>A literal under \<^verbatim>\<open>re.IGNORECASE\<close>.\<close>

definition lit_ci :: "string \<Rightarrow> regex" where
  "lit_ci w = seqs (map (\<lambda>x. Cls (\<lambda>c. to_lower c = to_lower x)) w)"

definition plus :: "(char \<Rightarrow> bool) \<Rightarrow> regex" where
  "plus p = Seq (Cls p) (Star p)"

definition opt :: "regex \<Rightarrow> regex" where
  "opt r = Alt r Eps"

text \<open>
  \<^verbatim>\<open>pattern.match(s)\<close>: a match at position 0, returning the groups.
\<close>

definition re_match :: "regex \<Rightarrow> string \<Rightarrow> caps option" where
  "re_match r s = map_option (\<lambda>(pv', s', c'). c') (rmatch [Rx r] None s Map.empty)"

text \<open>One attempt at the current position of a scan.\<close>

definition match_here :: "regex \<Rightarrow> char option \<Rightarrow> string \<Rightarrow> (char option \<times> string \<times> caps) option" where
  "match_here r pv s = rmatch [Rx r] pv s Map.empty"

text \<open>
  \<^verbatim>\<open>re.sub(pattern, repl, s)\<close> and \<^verbatim>\<open>pattern.findall(s)\<close> scan the subject from
  left to right for non-overlapping matches. After a match that consumed nothing the
  scan moves one character on.
\<close>

function re_sub_from :: "regex \<Rightarrow> string \<Rightarrow> char option \<Rightarrow> string \<Rightarrow> string" where
  "re_sub_from r repl pv s =
     (case match_here r pv s of
        None \<Rightarrow> (case s of [] \<Rightarrow> [] | x # xs \<Rightarrow> x # re_sub_from r repl (Some x) xs)
      | Some (pv', s', c') \<Rightarrow>
          if length s' < length s then repl @ re_sub_from r repl pv' s'
          else repl @ (case s of [] \<Rightarrow> [] | x # xs \<Rightarrow> x # re_sub_from r repl (Some x) xs))"
  by pat_completeness auto
termination
  by (relation "measure (\<lambda>(r, repl, pv, s). length s)") auto

declare re_sub_from.simps [simp del]

definition re_sub :: "regex \<Rightarrow> string \<Rightarrow> string \<Rightarrow> string" where
  "re_sub r repl s = re_sub_from r repl None s"

function findall_from :: "regex \<Rightarrow> char option \<Rightarrow> string \<Rightarrow> caps list" where
  "findall_from r pv s =
     (case match_here r pv s of
        None \<Rightarrow> (case s of [] \<Rightarrow> [] | x # xs \<Rightarrow> findall_from r (Some x) xs)
      | Some (pv', s', c') \<Rightarrow>
          if length s' < length s then c' # findall_from r pv' s'
          else c' # (case s of [] \<Rightarrow> [] | x # xs \<Rightarrow> findall_from r (Some x) xs))"
  by pat_completeness auto
termination
  by (relation "measure (\<lambda>(r, pv, s). length s)") auto

declare findall_from.simps [simp del]

definition findall :: "regex \<Rightarrow> string \<Rightarrow> caps list" where
  "findall r s = findall_from r None s"

text \<open>A group that took no part in the match reads as the empty string in \<^verbatim>\<open>findall\<close>.\<close>

definition group_or_empty :: "caps \<Rightarrow> nat \<Rightarrow> string" where
  "group_or_empty c n = (case c n of None \<Rightarrow> [] | Some g \<Rightarrow> g)"

section \<open>Python values\<close>

text \<open>
  The values that occur in column parameters and in generated columns. A float is
  carried as a real number (the rounding of float arithmetic is not modelled), a date
  as a day number, a datetime as a number of seconds. A Python \<^verbatim>\<open>dict\<close> is an
  association list with distinct keys in insertion order: \<open>map_of\<close> reads it and
  \<open>AList.update\<close> writes it.
\<close>

datatype pyval =
    PNone
  | PBool bool
  | PInt int
  | PFloat real
  | PStr string
  | PDate int
  | PDateTime int

section \<open>SchemaParser\<close>

record column_def =
  col_name :: string
  col_type :: string
  raw_type :: string
  params :: "(string \<times> pyval) list"
  constraints :: "string list"

record parse_result =
  tables :: "(string \<times> column_def list) list"
  dialect :: "string option"

definition KNOWN_DIALECTS :: "string list" where
  "KNOWN_DIALECTS = [''MySQL'', ''PostgreSQL'', ''SQLite'', ''MS SQL Server'', ''Oracle'', ''MariaDB'']"

text \<open>
  \<^verbatim>\<open>CREATE\s+TABLE\s+(?:IF\s+NOT\s+EXISTS\s+)?(?:`?(\w+)`?\.?)?`?(\w+)`?\s*\((.*?)\)\s*;\<close>
  with \<^verbatim>\<open>IGNORECASE | DOTALL\<close>.
\<close>

definition table_pattern :: regex where
  "table_pattern = seqs
     [lit_ci ''CREATE'', plus is_space, lit_ci ''TABLE'', plus is_space,
      opt (seqs [lit_ci ''IF'', plus is_space, lit_ci ''NOT'', plus is_space,
                 lit_ci ''EXISTS'', plus is_space]),
      opt (seqs [opt (chr CHR ''`''), Grp 1 (plus is_word), opt (chr CHR ''`''),
                 opt (chr CHR ''.'')]),
      opt (chr CHR ''`''), Grp 2 (plus is_word), opt (chr CHR ''`''),
      Star is_space, chr CHR ''('', Grp 3 (LazyStar (\<lambda>c. True)), chr CHR '')'',
      Star is_space, chr CHR '';'']"

text \<open>
  \<^verbatim>\<open>^\s*`?(\w+)`?\s+([\w\s]+(?:\([\d,\s]*\))?)([^,]*?)(?:,|\n|$)\<close>
  with \<^verbatim>\<open>IGNORECASE | MULTILINE\<close>.
\<close>

definition column_pattern :: regex where
  "column_pattern = seqs
     [BolM, Star is_space, opt (chr CHR ''`''), Grp 1 (plus is_word), opt (chr CHR ''`''),
      plus is_space,
      Grp 2 (Seq (plus (\<lambda>c. is_word c \<or> is_space c))
                 (opt (seqs [chr CHR ''('',
                             Star (\<lambda>c. is_digit c \<or> c = CHR '','' \<or> is_space c),
                             chr CHR '')'']))),
      Grp 3 (LazyStar (\<lambda>c. c \<noteq> CHR '','')),
      Alt (chr CHR '','') (Alt (chr LF) EolM)]"

text \<open>\<^verbatim>\<open>^[-/#\*\s]+|\s*[\*/]*$\<close>, the pattern that cleans the first line.\<close>

definition first_line_pattern :: regex where
  "first_line_pattern =
     Alt (Seq Bos (plus (\<lambda>c. c \<in> set ''-/#*'' \<or> is_space c)))
         (seqs [Star is_space, Star (\<lambda>c. c \<in> set ''*/''), Eos])"

text \<open>\<^verbatim>\<open>--.*?\n\<close>, \<^verbatim>\<open>#.*?\n\<close> and \<^verbatim>\<open>/\*.*?\*/\<close> (the last with \<^verbatim>\<open>DOTALL\<close>).\<close>

definition dash_comment :: regex where
  "dash_comment = seqs [chr CHR ''-'', chr CHR ''-'', LazyStar (\<lambda>c. c \<noteq> LF), chr LF]"

definition hash_comment :: regex where
  "hash_comment = seqs [chr CHR ''#'', LazyStar (\<lambda>c. c \<noteq> LF), chr LF]"

definition block_comment :: regex where
  "block_comment = seqs [chr CHR ''/'', chr CHR ''*'', LazyStar (\<lambda>c. True),
                         chr CHR ''*'', chr CHR ''/'']"

definition remove_comments :: "string \<Rightarrow> string" where
  "remove_comments content =
     strip (re_sub block_comment [] (re_sub hash_comment [LF] (re_sub dash_comment [LF] content)))"

text \<open>
  The character loop of \<^verbatim>\<open>_parse_columns\<close>: the text still to read, the buffer and
  the parenthesis level; the result is \<^verbatim>\<open>potential_column_defs\<close>.
\<close>

fun split_top_level :: "string \<Rightarrow> string \<Rightarrow> int \<Rightarrow> string list" where
  "split_top_level [] buffer paren_level = (if strip buffer \<noteq> [] then [strip buffer] else [])"
| "split_top_level (ch # rest) buffer paren_level =
     (let lvl = (if ch = CHR ''('' then paren_level + 1
                 else if ch = CHR '')'' then paren_level - 1
                 else paren_level)
      in if ch = CHR '','' \<and> lvl = 0 then strip buffer # split_top_level rest [] lvl
         else split_top_level rest (buffer @ [ch]) lvl)"

definition constraint_keywords :: "string list" where
  "constraint_keywords = [''PRIMARY KEY'', ''FOREIGN KEY'', ''UNIQUE'', ''CONSTRAINT'',
                          ''CHECK'', ''INDEX'', ''KEY'', ''TABLESPACE'']"

text \<open>The chain of \<^verbatim>\<open>if\<close>/\<^verbatim>\<open>elif\<close> that normalises the lower-cased raw type.\<close>

definition normalize_type :: "string \<Rightarrow> string" where
  "normalize_type data_type_lower =
     (if contains data_type_lower ''int'' then ''integer''
      else if contains data_type_lower ''char'' \<or> contains data_type_lower ''text'' then ''string''
      else if contains data_type_lower ''float'' \<or> contains data_type_lower ''double''
              \<or> contains data_type_lower ''real'' then ''float''
      else if contains data_type_lower ''decimal'' \<or> contains data_type_lower ''numeric'' then ''float''
      else if data_type_lower = ''date''
              \<or> (startswith data_type_lower ''date'' \<and> CHR ''('' \<notin> set data_type_lower) then ''date''
      else if contains data_type_lower ''datetime'' \<or> contains data_type_lower ''timestamp''
        then ''datetime''
      else if contains data_type_lower ''bool'' then ''boolean''
      else ''string'')"

text \<open>
  The body of the loop over the fragments: \<open>None\<close> when the fragment is skipped.
  Groups 1 and 2 of the column pattern take part in every match.
\<close>

definition parse_column :: "string \<Rightarrow> column_def option" where
  "parse_column fragment =
     (let col_def_full = strip fragment in
      if col_def_full = [] \<or> list_ex (startswith (upper col_def_full)) constraint_keywords
      then None
      else
        (case re_match column_pattern col_def_full of
           None \<Rightarrow> None
         | Some m \<Rightarrow>
             (let name = strip_chars (\<lambda>c. c = CHR ''`'') (group_or_empty m 1);
                  raw_type_full = strip (group_or_empty m 2)
              in Some \<lparr>col_name = name,
                       col_type = normalize_type (lower raw_type_full),
                       raw_type = raw_type_full,
                       params = [],
                       constraints = []\<rparr>)))"

definition parse_columns :: "string \<Rightarrow> column_def list" where
  "parse_columns columns_text =
     List.map_filter parse_column (split_top_level (remove_comments columns_text) [] 0)"

text \<open>The body of the loop over the matches of the table pattern.\<close>

definition add_table :: "caps \<Rightarrow> (string \<times> column_def list) list \<Rightarrow> (string \<times> column_def list) list" where
  "add_table match_groups tbls =
     (let db_schema_name = group_or_empty match_groups 1;
          table_name_str = group_or_empty match_groups 2;
          columns_text_str = group_or_empty match_groups 3;
          table_name = replace_char CHR ''`'' (lower (strip table_name_str));
          actual_table_name =
            (if db_schema_name \<noteq> []
             then replace_char CHR ''`'' (lower (strip db_schema_name)) @ ''.'' @ table_name
             else table_name);
          columns = parse_columns columns_text_str
      in if columns \<noteq> [] then AList.update actual_table_name columns tbls else tbls)"

definition clean_first_line :: "string \<Rightarrow> string" where
  "clean_first_line line = re_sub first_line_pattern [] (strip line)"

text \<open>
  The dialect and the content to parse: the first known dialect equal, case
  insensitively, to the cleaned first line, and then the text from the second line on.
\<close>

definition detect_dialect :: "string \<Rightarrow> string option \<times> string" where
  "detect_dialect schema_content =
     (case splitlines schema_content of
        [] \<Rightarrow> (None, schema_content)
      | first_line # rest \<Rightarrow>
          (case find (\<lambda>d. lower (clean_first_line first_line) = lower d) KNOWN_DIALECTS of
             None \<Rightarrow> (None, schema_content)
           | Some d \<Rightarrow> (Some d, join [LF] rest)))"

definition parse_schema :: "string \<Rightarrow> parse_result" where
  "parse_schema schema_content =
     (let (detected_dialect, content_to_parse) = detect_dialect schema_content;
          matches = findall table_pattern (remove_comments content_to_parse)
      in \<lparr>tables = fold add_table matches [], dialect = detected_dialect\<rparr>)"

section \<open>Errors and the random sources\<close>

text \<open>
  The exceptions of the model. \<open>LibraryError\<close> stands for any exception of pandas or
  numpy other than \<^verbatim>\<open>UnicodeDecodeError\<close>, with its name.
\<close>

datatype error = ValueError string | TypeError | IndexError | UnicodeDecodeError
  | LibraryError string

definition bind_err :: "error + 'a \<Rightarrow> ('a \<Rightarrow> error + 'b) \<Rightarrow> error + 'b" where
  "bind_err m f = (case m of Inl e \<Rightarrow> Inl e | Inr x \<Rightarrow> f x)"

text \<open>
  The state of a random generator is the tape of the raw draws it will still make; an
  exhausted tape draws 0. Quantifying over all tapes covers every run. The generator
  keeps two of them: the one of Python's \<^verbatim>\<open>random\<close> module and the one of the Faker
  instance.
\<close>

type_synonym rng = "nat list"

record gen =
  py_random :: rng
  faker_random :: rng

fun draw :: "rng \<Rightarrow> nat \<times> rng" where
  "draw [] = (0, [])"
| "draw (r # rs) = (r, rs)"

definition dict_get :: "(string \<times> pyval) list \<Rightarrow> string \<Rightarrow> pyval \<Rightarrow> pyval" where
  "dict_get d k dflt = (case map_of d k of None \<Rightarrow> dflt | Some v \<Rightarrow> v)"

fun truthy :: "pyval \<Rightarrow> bool" where
  "truthy PNone = False"
| "truthy (PBool b) = b"
| "truthy (PInt i) = (i \<noteq> 0)"
| "truthy (PFloat x) = (x \<noteq> 0)"
| "truthy (PStr s) = (s \<noteq> [])"
| "truthy (PDate d) = True"
| "truthy (PDateTime d) = True"

text \<open>
  A parameter used as an integer or as a number. A value of another type than the
  generator expects raises \<^verbatim>\<open>TypeError\<close> where it is first used in arithmetic.
\<close>

fun as_int :: "pyval \<Rightarrow> error + int" where
  "as_int (PInt i) = Inr i"
| "as_int (PBool b) = Inr (if b then 1 else 0)"
| "as_int v = Inl TypeError"

fun as_real :: "pyval \<Rightarrow> error + real" where
  "as_real (PFloat x) = Inr x"
| "as_real (PInt i) = Inr (of_int i)"
| "as_real (PBool b) = Inr (if b then 1 else 0)"
| "as_real v = Inl TypeError"

text \<open>\<^verbatim>\<open>random.randint(a, b)\<close>: a value of \<open>[a, b]\<close>, \<^verbatim>\<open>ValueError\<close> on an empty range.\<close>

definition randint :: "pyval \<Rightarrow> pyval \<Rightarrow> rng \<Rightarrow> error + (int \<times> rng)" where
  "randint a b g =
     bind_err (as_int a) (\<lambda>lo. bind_err (as_int b) (\<lambda>hi.
       if hi < lo then Inl (ValueError ''empty range'')
       else (case draw g of (r, g') \<Rightarrow> Inr (lo + int (r mod nat (hi - lo + 1)), g'))))"

text \<open>
  \<^verbatim>\<open>random.sample(population, k)\<close>: \<open>k\<close> positions of the population chosen without
  replacement, in the order the tape decides; \<^verbatim>\<open>ValueError\<close> when the sample is larger
  than the population.
\<close>

fun sample_from :: "'a list \<Rightarrow> nat \<Rightarrow> rng \<Rightarrow> 'a list \<times> rng" where
  "sample_from pool 0 g = ([], g)"
| "sample_from pool (Suc k) g =
     (case draw g of (r, g') \<Rightarrow>
        (let j = r mod length pool in
         case sample_from (take j pool @ drop (Suc j) pool) k g' of
           (ys, g'') \<Rightarrow> (pool ! j # ys, g'')))"

definition sample :: "'a list \<Rightarrow> nat \<Rightarrow> rng \<Rightarrow> error + ('a list \<times> rng)" where
  "sample population k g =
     (if length population < k then Inl (ValueError ''Sample larger than population or is negative'')
      else Inr (sample_from population k g))"

text \<open>\<^verbatim>\<open>random.choices(population, k=k)\<close> on a non-empty population: \<open>k\<close> draws with replacement.\<close>

fun choices :: "'a list \<Rightarrow> nat \<Rightarrow> rng \<Rightarrow> 'a list \<times> rng" where
  "choices population 0 g = ([], g)"
| "choices population (Suc k) g =
     (case draw g of (r, g') \<Rightarrow>
        (case choices population k g' of
           (ys, g'') \<Rightarrow> (population ! (r mod length population) # ys, g'')))"

text \<open>\<^verbatim>\<open>random.random()\<close>: a multiple of \<open>2\<^sup>-\<^sup>5\<^sup>3\<close> in \<open>[0, 1)\<close>.\<close>

definition random_unit :: "rng \<Rightarrow> real \<times> rng" where
  "random_unit g = (case draw g of (r, g') \<Rightarrow> (real (r mod 2 ^ 53) / 2 ^ 53, g'))"

text \<open>
  What the generator calls in the Faker library and in \<^verbatim>\<open>datetime\<close>, as functions of
  the library's own draw: the text of a provider method, \<^verbatim>\<open>strptime(v, '%Y-%m-%d')\<close>
  (a datetime in seconds), \<^verbatim>\<open>date_between\<close> on day numbers and
  \<^verbatim>\<open>date_time_between\<close> on seconds.
\<close>

record faker_lib =
  fake_text :: "string \<Rightarrow> nat \<Rightarrow> string"
  strptime_ymd :: "pyval \<Rightarrow> error + int"
  date_between :: "int \<Rightarrow> int \<Rightarrow> nat \<Rightarrow> error + int"
  date_time_between :: "int \<Rightarrow> int \<Rightarrow> nat \<Rightarrow> error + int"

section \<open>DataGenerator\<close>

text \<open>
  \<^verbatim>\<open>int(num_samples * 0.05)\<close>. The double nearest to 0.05 is
  \<open>7205759403792794 \<sqdot> 2\<^sup>-\<^sup>5\<^sup>7\<close>; the product with \<open>num_samples\<close> (exact as a double below
  \<open>2\<^sup>5\<^sup>3\<close>) is rounded to a significand of 53 bits, ties to even, and \<^verbatim>\<open>int\<close> truncates.
\<close>

fun bit_length :: "nat \<Rightarrow> nat" where
  "bit_length n = (if n = 0 then 0 else Suc (bit_length (n div 2)))"

declare bit_length.simps [simp del]

definition null_count :: "nat \<Rightarrow> nat" where
  "null_count num_samples =
     (let p = num_samples * 7205759403792794;
          b = bit_length p
      in if b \<le> 53 then p div 2 ^ 57
         else (let sh = b - 53;
                   q = p div 2 ^ sh;
                   r = p mod 2 ^ sh;
                   m = (if 2 ^ sh < 2 * r \<or> (2 * r = 2 ^ sh \<and> odd q) then q + 1 else q)
               in (m * 2 ^ sh) div 2 ^ 57))"

text \<open>\<^verbatim>\<open>for idx in null_indices: values[idx] = None\<close>\<close>

fun set_nulls :: "nat list \<Rightarrow> pyval list \<Rightarrow> error + pyval list" where
  "set_nulls [] vals = Inr vals"
| "set_nulls (idx # idxs) vals =
     (if idx < length vals then set_nulls idxs (vals[idx := PNone]) else Inl IndexError)"

text \<open>
  The block \<^verbatim>\<open>if nullable: ...\<close> that ends each of the six generators of the
  schema-driven mode, word for word the same in each.
\<close>

definition add_nulls :: "pyval \<Rightarrow> nat \<Rightarrow> pyval list \<Rightarrow> gen \<Rightarrow> error + (pyval list \<times> gen)" where
  "add_nulls nullable num_samples vals g =
     (if truthy nullable then
        bind_err (sample [0..<num_samples] (null_count num_samples) (py_random g))
          (\<lambda>(null_indices, r).
             bind_err (set_nulls null_indices vals) (\<lambda>vals'. Inr (vals', g\<lparr>py_random := r\<rparr>)))
      else Inr (vals, g))"

text \<open>\<^verbatim>\<open>[random.randint(min_val, max_val) for _ in range(num_samples)]\<close>\<close>

fun randints :: "pyval \<Rightarrow> pyval \<Rightarrow> nat \<Rightarrow> rng \<Rightarrow> error + (int list \<times> rng)" where
  "randints a b 0 g = Inr ([], g)"
| "randints a b (Suc k) g =
     bind_err (randint a b g) (\<lambda>(v, g').
       bind_err (randints a b k g') (\<lambda>(vs, g''). Inr (v # vs, g'')))"

text \<open>
  \<^verbatim>\<open>_generate_integers\<close>. It returns the values, the counters of the call and the
  state of the random sources.
\<close>

definition generate_integers ::
  "nat \<Rightarrow> (string \<times> pyval) list \<Rightarrow> (string \<times> int) list \<Rightarrow> string \<Rightarrow> gen \<Rightarrow>
     error + (pyval list \<times> (string \<times> int) list \<times> gen)" where
  "generate_integers num_samples ps unique_counters name g =
     (let min_val = dict_get ps ''min_value'' (PInt 1);
          max_val = dict_get ps ''max_value'' (PInt 100000);
          nullable = dict_get ps ''nullable'' (PBool False);
          unique = dict_get ps ''unique'' (PBool False);
          auto_increment = dict_get ps ''auto_increment'' (PBool False)
      in bind_err
           (if truthy auto_increment then
              (let start_val = (case map_of unique_counters name of None \<Rightarrow> 1 | Some v \<Rightarrow> v)
               in Inr (map PInt [start_val .. start_val + int num_samples - 1],
                       AList.update name (start_val + int num_samples) unique_counters, g))
            else if truthy unique then
              bind_err (as_int max_val) (\<lambda>hi. bind_err (as_int min_val) (\<lambda>lo.
                (let hi' = (if hi - lo + 1 < int num_samples then lo + int num_samples else hi)
                 in bind_err (sample [lo .. hi'] num_samples (py_random g))
                      (\<lambda>(vs, r). Inr (map PInt vs, unique_counters, g\<lparr>py_random := r\<rparr>)))))
            else
              bind_err (randints min_val max_val num_samples (py_random g))
                (\<lambda>(vs, r). Inr (map PInt vs, unique_counters, g\<lparr>py_random := r\<rparr>)))
           (\<lambda>(vals, counters, g').
              bind_err (add_nulls nullable num_samples vals g')
                (\<lambda>(vals', g''). Inr (vals', counters, g''))))"

text \<open>
  \<^verbatim>\<open>_generate_floats\<close>. \<^verbatim>\<open>random.uniform(a, b)\<close> is \<^verbatim>\<open>a + (b - a) * random()\<close>;
  \<^verbatim>\<open>round(value, scale)\<close> is carried out on the real number, a tie rounded up.
\<close>

definition round_to :: "real \<Rightarrow> int \<Rightarrow> real" where
  "round_to x d =
     (if 0 \<le> d then of_int (round (x * 10 ^ nat d)) / 10 ^ nat d
      else of_int (round (x / 10 ^ nat (- d))) * 10 ^ nat (- d))"

fun py_round :: "real \<Rightarrow> pyval \<Rightarrow> error + pyval" where
  "py_round x PNone = Inr (PInt (round x))"
| "py_round x (PInt d) = Inr (PFloat (round_to x d))"
| "py_round x (PBool b) = Inr (PFloat (round_to x (if b then 1 else 0)))"
| "py_round x v = Inl TypeError"

definition float_value :: "pyval \<Rightarrow> pyval \<Rightarrow> pyval \<Rightarrow> pyval \<Rightarrow> rng \<Rightarrow> error + (pyval \<times> rng)" where
  "float_value min_val max_val precision scale g =
     bind_err (as_real min_val) (\<lambda>lo. bind_err (as_real max_val) (\<lambda>hi.
       (case random_unit g of (u, g') \<Rightarrow>
          (let v = lo + (hi - lo) * u
           in if truthy precision then bind_err (py_round v scale) (\<lambda>v'. Inr (v', g'))
              else Inr (PFloat v, g')))))"

fun float_values :: "pyval \<Rightarrow> pyval \<Rightarrow> pyval \<Rightarrow> pyval \<Rightarrow> nat \<Rightarrow> rng \<Rightarrow> error + (pyval list \<times> rng)" where
  "float_values min_val max_val precision scale 0 g = Inr ([], g)"
| "float_values min_val max_val precision scale (Suc k) g =
     bind_err (float_value min_val max_val precision scale g) (\<lambda>(v, g').
       bind_err (float_values min_val max_val precision scale k g') (\<lambda>(vs, g''). Inr (v # vs, g'')))"

definition generate_floats :: "nat \<Rightarrow> (string \<times> pyval) list \<Rightarrow> gen \<Rightarrow> error + (pyval list \<times> gen)" where
  "generate_floats num_samples ps g =
     (let min_val = dict_get ps ''min_value'' (PFloat 0);
          max_val = dict_get ps ''max_value'' (PFloat 10000);
          precision = dict_get ps ''precision'' PNone;
          scale = dict_get ps ''scale'' (PInt 2);
          nullable = dict_get ps ''nullable'' (PBool False)
      in bind_err (float_values min_val max_val precision scale num_samples (py_random g))
           (\<lambda>(vals, r). add_nulls nullable num_samples vals (g\<lparr>py_random := r\<rparr>)))"

text \<open>\<^verbatim>\<open>_choose_faker_method\<close>\<close>

definition choose_faker_method :: "string \<Rightarrow> string option" where
  "choose_faker_method name =
     (let col_lower = lower name in
      if list_ex (contains col_lower) [''name'', ''first_name'', ''lastname''] then Some ''name''
      else if list_ex (contains col_lower) [''email'', ''mail''] then Some ''email''
      else if list_ex (contains col_lower) [''phone'', ''mobile'', ''tel''] then Some ''phone_number''
      else if list_ex (contains col_lower) [''address'', ''street''] then Some ''address''
      else if list_ex (contains col_lower) [''city''] then Some ''city''
      else if list_ex (contains col_lower) [''state'', ''province''] then Some ''state''
      else if list_ex (contains col_lower) [''country''] then Some ''country''
      else if list_ex (contains col_lower) [''company'', ''organization''] then Some ''company''
      else if list_ex (contains col_lower) [''job'', ''position'', ''title''] then Some ''job''
      else if list_ex (contains col_lower) [''description'', ''text'', ''comment''] then Some ''text''
      else None)"

text \<open>\<^verbatim>\<open>string.ascii_letters + string.digits + ' '\<close>\<close>

definition alphabet :: string where
  "alphabet = lowers @ uppers @ ''0123456789 ''"

text \<open>\<^verbatim>\<open>str(n)\<close> for a counter, and the slice \<^verbatim>\<open>value[:m]\<close>.\<close>

fun str_of_nat :: "nat \<Rightarrow> string" where
  "str_of_nat n =
     (if n < 10 then [''0123456789'' ! n]
      else str_of_nat (n div 10) @ [''0123456789'' ! (n mod 10)])"

declare str_of_nat.simps [simp del]

definition slice_to :: "string \<Rightarrow> int \<Rightarrow> string" where
  "slice_to v m = (if m < 0 then take (nat (int (length v) + m)) v else take (nat m) v)"

text \<open>
  The loop \<^verbatim>\<open>while value in used_values: value = f"{original_value}_{counter}"; counter += 1\<close>,
  entered with \<open>value = original_value\<close> and \<open>counter = 1\<close>.
\<close>

function unique_value :: "string \<Rightarrow> string \<Rightarrow> nat \<Rightarrow> string list \<Rightarrow> string" where
  "unique_value original_value v counter used_values =
     (if v \<in> set used_values
      then unique_value original_value (original_value @ ''_'' @ str_of_nat counter)
             (counter + 1) used_values
      else v)"
  by pat_completeness auto

text \<open>
  One turn of the loop of \<^verbatim>\<open>_generate_strings\<close>: the value appended, the set
  \<^verbatim>\<open>used_values\<close> and the random sources after it.
\<close>

definition string_value ::
  "faker_lib \<Rightarrow> string option \<Rightarrow> pyval \<Rightarrow> pyval \<Rightarrow> pyval \<Rightarrow> string list \<Rightarrow> gen \<Rightarrow>
     error + (string \<times> string list \<times> gen)" where
  "string_value F faker_method min_length max_length unique used_values g =
     bind_err
       (case faker_method of
          Some m \<Rightarrow>
            (case draw (faker_random g) of
               (r, fr) \<Rightarrow> Inr (fake_text F m r, g\<lparr>faker_random := fr\<rparr>))
        | None \<Rightarrow>
            bind_err (as_int max_length) (\<lambda>mx.
              bind_err (randint min_length (PInt (min mx 50)) (py_random g)) (\<lambda>(len, r).
                (case choices alphabet (nat len) r of
                   (cs, r') \<Rightarrow> Inr (cs, g\<lparr>py_random := r'\<rparr>)))))
       (\<lambda>(v, g').
          (let (v1, used') =
                 (if truthy unique
                  then (let u = unique_value v v 1 used_values in (u, u # used_values))
                  else (v, used_values))
           in bind_err (as_int max_length) (\<lambda>mx.
                Inr (if mx < int (length v1) then slice_to v1 mx else v1, used', g'))))"

fun string_values ::
  "faker_lib \<Rightarrow> string option \<Rightarrow> pyval \<Rightarrow> pyval \<Rightarrow> pyval \<Rightarrow> nat \<Rightarrow> string list \<Rightarrow> gen \<Rightarrow>
     error + (string list \<times> gen)" where
  "string_values F faker_method min_length max_length unique 0 used_values g = Inr ([], g)"
| "string_values F faker_method min_length max_length unique (Suc k) used_values g =
     bind_err (string_value F faker_method min_length max_length unique used_values g)
       (\<lambda>(v, used', g').
          bind_err (string_values F faker_method min_length max_length unique k used' g')
            (\<lambda>(vs, g''). Inr (v # vs, g'')))"

definition generate_strings ::
  "faker_lib \<Rightarrow> nat \<Rightarrow> (string \<times> pyval) list \<Rightarrow> string \<Rightarrow> gen \<Rightarrow> error + (pyval list \<times> gen)" where
  "generate_strings F num_samples ps name g =
     (let min_length = dict_get ps ''min_length'' (PInt 1);
          max_length = dict_get ps ''max_length'' (PInt 255);
          nullable = dict_get ps ''nullable'' (PBool False);
          unique = dict_get ps ''unique'' (PBool False);
          faker_method = choose_faker_method name
      in bind_err (string_values F faker_method min_length max_length unique num_samples [] g)
           (\<lambda>(vals, g'). add_nulls nullable num_samples (map PStr vals) g'))"

text \<open>
  \<^verbatim>\<open>_generate_dates\<close> and \<^verbatim>\<open>_generate_datetimes\<close>: \<open>num_samples\<close> calls of a Faker
  function of the library's draw.
\<close>

fun fake_values :: "(nat \<Rightarrow> error + int) \<Rightarrow> nat \<Rightarrow> rng \<Rightarrow> error + (int list \<times> rng)" where
  "fake_values f 0 g = Inr ([], g)"
| "fake_values f (Suc k) g =
     (case draw g of (r, g') \<Rightarrow>
        bind_err (f r) (\<lambda>v. bind_err (fake_values f k g') (\<lambda>(vs, g''). Inr (v # vs, g''))))"

definition generate_dates ::
  "faker_lib \<Rightarrow> nat \<Rightarrow> (string \<times> pyval) list \<Rightarrow> gen \<Rightarrow> error + (pyval list \<times> gen)" where
  "generate_dates F num_samples ps g =
     bind_err (strptime_ymd F (dict_get ps ''start_date'' (PStr ''2020-01-01''))) (\<lambda>s.
       bind_err (strptime_ymd F (dict_get ps ''end_date'' (PStr ''2024-12-31''))) (\<lambda>e.
         (let start_date = s div 86400;
              end_date = e div 86400;
              nullable = dict_get ps ''nullable'' (PBool False)
          in bind_err (fake_values (date_between F start_date end_date) num_samples (faker_random g))
               (\<lambda>(vals, fr).
                  add_nulls nullable num_samples (map PDate vals) (g\<lparr>faker_random := fr\<rparr>)))))"

definition generate_datetimes ::
  "faker_lib \<Rightarrow> nat \<Rightarrow> (string \<times> pyval) list \<Rightarrow> gen \<Rightarrow> error + (pyval list \<times> gen)" where
  "generate_datetimes F num_samples ps g =
     bind_err (strptime_ymd F (dict_get ps ''start_date'' (PStr ''2020-01-01''))) (\<lambda>start_date.
       bind_err (strptime_ymd F (dict_get ps ''end_date'' (PStr ''2024-12-31''))) (\<lambda>end_date.
         (let nullable = dict_get ps ''nullable'' (PBool False)
          in bind_err (fake_values (date_time_between F start_date end_date) num_samples
                         (faker_random g))
               (\<lambda>(vals, fr).
                  add_nulls nullable num_samples (map PDateTime vals) (g\<lparr>faker_random := fr\<rparr>)))))"

text \<open>\<^verbatim>\<open>_generate_booleans\<close>: \<^verbatim>\<open>random.random() < true_prob\<close>, \<open>num_samples\<close> times.\<close>

fun bool_values :: "pyval \<Rightarrow> nat \<Rightarrow> rng \<Rightarrow> error + (bool list \<times> rng)" where
  "bool_values true_prob 0 g = Inr ([], g)"
| "bool_values true_prob (Suc k) g =
     (case random_unit g of (u, g') \<Rightarrow>
        bind_err (as_real true_prob) (\<lambda>p.
          bind_err (bool_values true_prob k g') (\<lambda>(vs, g''). Inr ((u < p) # vs, g''))))"

definition generate_booleans :: "nat \<Rightarrow> (string \<times> pyval) list \<Rightarrow> gen \<Rightarrow> error + (pyval list \<times> gen)" where
  "generate_booleans num_samples ps g =
     (let true_prob = dict_get ps ''true_probability'' (PFloat (1 / 2));
          nullable = dict_get ps ''nullable'' (PBool False)
      in bind_err (bool_values true_prob num_samples (py_random g))
           (\<lambda>(vals, r). add_nulls nullable num_samples (map PBool vals) (g\<lparr>py_random := r\<rparr>)))"

text \<open>
  \<^verbatim>\<open>generate_from_schema\<close>. The dictionaries \<^verbatim>\<open>data\<close> and \<^verbatim>\<open>unique_counters\<close> are
  local to the call: both start empty. The data frame returned is the dictionary of
  the columns; the generator instance keeps the state of the random sources only.
\<close>

definition generate_column ::
  "faker_lib \<Rightarrow> nat \<Rightarrow> column_def \<Rightarrow> (string \<times> int) list \<Rightarrow> gen \<Rightarrow>
     error + (pyval list \<times> (string \<times> int) list \<times> gen)" where
  "generate_column F num_samples column unique_counters g =
     (let name = col_name column;
          ctype = col_type column;
          ps = params column
      in if ctype = ''integer'' then generate_integers num_samples ps unique_counters name g
         else bind_err
                (if ctype = ''float'' then generate_floats num_samples ps g
                 else if ctype = ''string'' then generate_strings F num_samples ps name g
                 else if ctype = ''date'' then generate_dates F num_samples ps g
                 else if ctype = ''datetime'' then generate_datetimes F num_samples ps g
                 else if ctype = ''boolean'' then generate_booleans num_samples ps g
                 else generate_strings F num_samples ps name g)
                (\<lambda>(vals, g'). Inr (vals, unique_counters, g')))"

fun generate_columns ::
  "faker_lib \<Rightarrow> nat \<Rightarrow> column_def list \<Rightarrow> (string \<times> pyval list) list \<Rightarrow> (string \<times> int) list \<Rightarrow>
     gen \<Rightarrow> error + ((string \<times> pyval list) list \<times> gen)" where
  "generate_columns F num_samples [] data unique_counters g = Inr (data, g)"
| "generate_columns F num_samples (column # columns) data unique_counters g =
     bind_err (generate_column F num_samples column unique_counters g)
       (\<lambda>(vals, counters, g').
          generate_columns F num_samples columns
            (AList.update (col_name column) vals data) counters g')"

definition generate_from_schema ::
  "faker_lib \<Rightarrow> column_def list \<Rightarrow> nat \<Rightarrow> gen \<Rightarrow> error + ((string \<times> pyval list) list \<times> gen)" where
  "generate_from_schema F columns num_samples g =
     generate_columns F num_samples columns [] [] g"

section \<open>DataAnalyzer\<close>













text \<open>
  The values of numpy's \<^verbatim>\<open>float64\<close>: a real number (rounding is not modelled), the
  two infinities and NaN. A comparison with NaN is false; a division by zero gives an
  infinity or NaN and does not raise.
\<close>

datatype fl = NaN | NegInf | Fin real | PosInf

fun fabs :: "fl \<Rightarrow> fl" where
  "fabs NaN = NaN"
| "fabs NegInf = PosInf"
| "fabs PosInf = PosInf"
| "fabs (Fin x) = Fin \<bar>x\<bar>"

fun flt :: "fl \<Rightarrow> fl \<Rightarrow> bool" where
  "flt NaN y = False"
| "flt x NaN = False"
| "flt PosInf y = False"
| "flt x NegInf = False"
| "flt NegInf y = True"
| "flt x PosInf = True"
| "flt (Fin x) (Fin y) = (x < y)"

definition fgt :: "fl \<Rightarrow> fl \<Rightarrow> bool" where
  "fgt x y = flt y x"

fun fge :: "fl \<Rightarrow> fl \<Rightarrow> bool" where
  "fge NaN y = False"
| "fge x NaN = False"
| "fge x y = (\<not> flt x y)"

fun fneg :: "fl \<Rightarrow> fl" where
  "fneg NaN = NaN"
| "fneg NegInf = PosInf"
| "fneg PosInf = NegInf"
| "fneg (Fin x) = Fin (- x)"

fun fsub :: "fl \<Rightarrow> fl \<Rightarrow> fl" where
  "fsub NaN y = NaN"
| "fsub x NaN = NaN"
| "fsub (Fin x) (Fin y) = Fin (x - y)"
| "fsub PosInf PosInf = NaN"
| "fsub NegInf NegInf = NaN"
| "fsub PosInf y = PosInf"
| "fsub NegInf y = NegInf"
| "fsub (Fin x) PosInf = NegInf"
| "fsub (Fin x) NegInf = PosInf"

text \<open>The sign of a zero divisor is not modelled: it is taken as positive.\<close>

fun fdiv :: "fl \<Rightarrow> fl \<Rightarrow> fl" where
  "fdiv NaN y = NaN"
| "fdiv x NaN = NaN"
| "fdiv (Fin x) (Fin y) =
     (if y = 0 then (if x = 0 then NaN else if 0 < x then PosInf else NegInf)
      else Fin (x / y))"
| "fdiv (Fin x) y = Fin 0"
| "fdiv x (Fin y) = (if 0 \<le> y then x else fneg x)"
| "fdiv x y = NaN"

text \<open>
  A numeric column, as what its pandas methods return or raise:
  \<^verbatim>\<open>skew()\<close>, \<^verbatim>\<open>kurtosis()\<close>, \<^verbatim>\<open>min()\<close>, \<^verbatim>\<open>max()\<close> and \<^verbatim>\<open>std()\<close>.
\<close>

record series =
  s_skew :: "error + fl"
  s_kurtosis :: "error + fl"
  s_min :: "error + fl"
  s_max :: "error + fl"
  s_std :: "error + fl"

datatype distribution = Known fl fl string | Unknown

text \<open>The body of the \<^verbatim>\<open>try\<close> of \<^verbatim>\<open>_get_distribution_info\<close>, and the function.\<close>

definition distribution_body :: "series \<Rightarrow> error + distribution" where
  "distribution_body s =
     bind_err (s_skew s) (\<lambda>skewness.
       bind_err (s_kurtosis s) (\<lambda>kurtosis.
         if fgt (fabs skewness) (Fin 1) then Inr (Known skewness kurtosis ''skewed'')
         else
           bind_err (s_min s) (\<lambda>mn.
             if fge mn (Fin 0) then
               bind_err (s_max s) (\<lambda>mx.
                 bind_err (s_min s) (\<lambda>mn'.
                   bind_err (s_std s) (\<lambda>sd.
                     if flt (fdiv (fsub mx mn') sd) (Fin 2)
                     then Inr (Known skewness kurtosis ''uniform'')
                     else Inr (Known skewness kurtosis ''normal''))))
             else Inr (Known skewness kurtosis ''normal''))))"

definition get_distribution_info :: "series \<Rightarrow> distribution" where
  "get_distribution_info s =
     (case distribution_body s of Inl e \<Rightarrow> Unknown | Inr d \<Rightarrow> d)"


text \<open>A library of Faker and \<^verbatim>\<open>datetime\<close> that never raises, for the examples.\<close>

definition plain_faker :: faker_lib where
  "plain_faker =
     \<lparr>fake_text = (\<lambda>provider r. provider @ ''_'' @ str_of_nat r),
      strptime_ymd = (\<lambda>v. Inr 0),
      date_between = (\<lambda>start_date end_date r. Inr start_date),
      date_time_between = (\<lambda>start_date end_date r. Inr start_date)\<rparr>"

definition fresh :: gen where
  "fresh = \<lparr>py_random = [], faker_random = []\<rparr>"

text \<open>
  Two calls of \<^verbatim>\<open>generate_from_schema\<close> on the same generator instance: the second
  starts from the random sources as the first left them. The result is the data of
  both calls.
\<close>

definition two_calls ::
  "faker_lib \<Rightarrow> column_def list \<Rightarrow> nat \<Rightarrow> gen \<Rightarrow>
     error + ((string \<times> pyval list) list \<times> (string \<times> pyval list) list)" where
  "two_calls F columns num_samples g =
     bind_err (generate_from_schema F columns num_samples g) (\<lambda>(first_data, g1).
       bind_err (generate_from_schema F columns num_samples g1) (\<lambda>(second_data, g2).
         Inr (first_data, second_data)))"


definition id_column :: column_def where
  "id_column =
     \<lparr>col_name = ''id'', col_type = ''integer'', raw_type = ''INT'',
      params = [(''auto_increment'', PBool True)], constraints = []\<rparr>"




section \<open>Termination of the loop that makes a string unique\<close>

lemma str_of_nat_small: "n < 10 \<Longrightarrow> str_of_nat n = [''0123456789'' ! n]"
  using str_of_nat.simps[of n] by simp

lemma str_of_nat_big:
  "\<not> n < 10 \<Longrightarrow> str_of_nat n = str_of_nat (n div 10) @ [''0123456789'' ! (n mod 10)]"
  using str_of_nat.simps[of n] by presburger

lemma str_of_nat_not_empty: "str_of_nat n \<noteq> []"
  by (cases "n < 10") (simp_all add: str_of_nat_small str_of_nat_big)

lemma digit_char_inj:
  assumes "a < 10" and "b < 10" and "''0123456789'' ! a = ''0123456789'' ! b"
  shows "a = b"
proof -
  have "distinct ''0123456789''" by simp
  moreover have "length ''0123456789'' = 10" by simp
  ultimately show ?thesis
    using assms nth_eq_iff_index_eq[of "''0123456789''" a b] by presburger
qed

lemma str_of_nat_inj: "str_of_nat m = str_of_nat n \<Longrightarrow> m = n"
proof (induction m arbitrary: n rule: str_of_nat.induct)
  case (1 m)
  note same = \<open>str_of_nat m = str_of_nat n\<close>
  show ?case
  proof (cases "m < 10")
    case small_m: True
    show ?thesis
    proof (cases "n < 10")
      case True
      have "[''0123456789'' ! m] = [''0123456789'' ! n]"
        using same unfolding str_of_nat_small[OF small_m] str_of_nat_small[OF True] .
      then have "''0123456789'' ! m = ''0123456789'' ! n" by (rule list.inject[THEN iffD1, THEN conjunct1])
      then show ?thesis
        by (rule digit_char_inj[OF small_m True])
    next
      case False
      have "[''0123456789'' ! m] = str_of_nat (n div 10) @ [''0123456789'' ! (n mod 10)]"
        using same unfolding str_of_nat_small[OF small_m] str_of_nat_big[OF False] .
      then have "str_of_nat (n div 10) = []"
        by (metis append1_eq_conv append_Nil)
      then show ?thesis
        using str_of_nat_not_empty[of "n div 10"] by blast
    qed
  next
    case big_m: False
    show ?thesis
    proof (cases "n < 10")
      case True
      have "str_of_nat (m div 10) @ [''0123456789'' ! (m mod 10)] = [''0123456789'' ! n]"
        using same unfolding str_of_nat_big[OF big_m] str_of_nat_small[OF True] .
      then have "str_of_nat (m div 10) = []"
        by (metis append1_eq_conv append_Nil)
      then show ?thesis
        using str_of_nat_not_empty[of "m div 10"] by blast
    next
      case False
      have both: "str_of_nat (m div 10) @ [''0123456789'' ! (m mod 10)]
          = str_of_nat (n div 10) @ [''0123456789'' ! (n mod 10)]"
        using same unfolding str_of_nat_big[OF big_m] str_of_nat_big[OF False] .
      have heads: "str_of_nat (m div 10) = str_of_nat (n div 10)"
        using both append1_eq_conv by blast
      have lasts: "''0123456789'' ! (m mod 10) = ''0123456789'' ! (n mod 10)"
        using both append1_eq_conv by blast
      have quot: "m div 10 = n div 10"
        using "1.IH"[OF big_m heads] .
      have rem: "m mod 10 = n mod 10"
      proof (rule digit_char_inj[OF _ _ lasts])
        show "m mod 10 < 10" by simp
        show "n mod 10 < 10" by simp
      qed
      have "m = m div 10 * 10 + m mod 10"
        by (rule div_mult_mod_eq[symmetric])
      also have "\<dots> = n div 10 * 10 + n mod 10"
        unfolding quot rem ..
      also have "\<dots> = n"
        by (rule div_mult_mod_eq)
      finally show ?thesis .
    qed
  qed
qed

lemma suffixed_inj: "inj (\<lambda>k. original @ ''_'' @ str_of_nat k)"
  by (rule injI) (simp add: str_of_nat_inj)

lemma finite_suffixed_in: "finite {k. original @ ''_'' @ str_of_nat k \<in> set used}"
proof -
  have "finite ((\<lambda>k. original @ ''_'' @ str_of_nat k) -` set used)"
    by (rule finite_vimageI[OF _ suffixed_inj]) simp
  then show ?thesis by (simp add: vimage_def)
qed

lemma card_from_step:
  fixes P :: "nat \<Rightarrow> bool"
  assumes fin: "finite {k. P k}"
  shows "card {k. Suc c \<le> k \<and> P k} + (if P c then 1 else 0) = card {k. c \<le> k \<and> P k}"
proof -
  have fin': "finite {k. Suc c \<le> k \<and> P k}"
    by (rule finite_subset[OF _ fin]) blast
  show ?thesis
  proof (cases "P c")
    case True
    have "{k. c \<le> k \<and> P k} = insert c {k. Suc c \<le> k \<and> P k}"
    proof (rule set_eqI)
      fix k
      show "k \<in> {k. c \<le> k \<and> P k} \<longleftrightarrow> k \<in> insert c {k. Suc c \<le> k \<and> P k}"
        using True by (cases "k = c") auto
    qed
    moreover have "c \<notin> {k. Suc c \<le> k \<and> P k}" by simp
    ultimately show ?thesis
      using True fin' by simp
  next
    case False
    have "{k. c \<le> k \<and> P k} = {k. Suc c \<le> k \<and> P k}"
    proof (rule set_eqI)
      fix k
      show "k \<in> {k. c \<le> k \<and> P k} \<longleftrightarrow> k \<in> {k. Suc c \<le> k \<and> P k}"
        using False by (cases "k = c") auto
    qed
    then show ?thesis
      using False by simp
  qed
qed

termination unique_value
proof (relation "measure (\<lambda>(original, v, counter, used).
         card {k. counter \<le> k \<and> original @ ''_'' @ str_of_nat k \<in> set used}
         + (if v \<in> set used then 1 else 0))", goal_cases)
  case 1
  show ?case by (rule wf_measure)
next
  case (2 original_value v counter used_values)
  have "card {k. Suc counter \<le> k \<and> original_value @ ''_'' @ str_of_nat k \<in> set used_values}
        + (if original_value @ ''_'' @ str_of_nat counter \<in> set used_values then 1 else 0)
      = card {k. counter \<le> k \<and> original_value @ ''_'' @ str_of_nat k \<in> set used_values}"
    by (rule card_from_step[OF finite_suffixed_in])
  then show ?case
    using 2 by (simp del: append.simps)
qed

declare unique_value.simps [simp del]

section \<open>Properties of the parser\<close>

lemma parse_column_placeholders:
  "parse_column fragment = Some c \<Longrightarrow> params c = [] \<and> constraints c = []"
  by (auto simp: parse_column_def Let_def split: if_splits option.splits)

lemma parse_columns_placeholders:
  "c \<in> set (parse_columns columns_text) \<Longrightarrow> params c = [] \<and> constraints c = []"
  by (auto simp: parse_columns_def List.map_filter_def dest: parse_column_placeholders)

text \<open>
  The loop over the matches keeps this invariant of the dictionary of tables: every
  entry is a non-empty list of columns whose parameters and constraints are empty.
\<close>

lemma add_table_invariant:
  assumes "\<And>n cs. map_of tbls n = Some cs \<Longrightarrow>
             cs \<noteq> [] \<and> (\<forall>c \<in> set cs. params c = [] \<and> constraints c = [])"
    and "map_of (add_table m tbls) n = Some cs"
  shows "cs \<noteq> [] \<and> (\<forall>c \<in> set cs. params c = [] \<and> constraints c = [])"
  using assms
  by (auto simp: add_table_def Let_def update_conv' dest: parse_columns_placeholders
           split: if_splits)

lemma fold_add_table_invariant:
  assumes "\<And>n cs. map_of tbls n = Some cs \<Longrightarrow>
             cs \<noteq> [] \<and> (\<forall>c \<in> set cs. params c = [] \<and> constraints c = [])"
    and "map_of (fold add_table ms tbls) n = Some cs"
  shows "cs \<noteq> [] \<and> (\<forall>c \<in> set cs. params c = [] \<and> constraints c = [])"
  using assms
proof (induction ms arbitrary: tbls)
  case Nil
  then show ?case by simp
next
  case (Cons m ms)
  show ?case
  proof (rule Cons.IH[of "add_table m tbls"])
    fix n' cs'
    assume "map_of (add_table m tbls) n' = Some cs'"
    then show "cs' \<noteq> [] \<and> (\<forall>c \<in> set cs'. params c = [] \<and> constraints c = [])"
      using add_table_invariant[of tbls m n' cs'] Cons.prems(1) by blast
  next
    show "map_of (fold add_table ms (add_table m tbls)) n = Some cs"
      using Cons.prems(2) by simp
  qed
qed

lemma parse_schema_invariant:
  assumes "map_of (tables (parse_schema txt)) n = Some cs"
  shows "cs \<noteq> [] \<and> (\<forall>c \<in> set cs. params c = [] \<and> constraints c = [])"
proof -
  obtain d content where dc: "detect_dialect txt = (d, content)"
    by (cases "detect_dialect txt")
  have "map_of (fold add_table (findall table_pattern (remove_comments content)) []) n = Some cs"
    using assms by (simp add: parse_schema_def dc Let_def)
  then show ?thesis
    using fold_add_table_invariant[of "[]"] by fastforce
qed

lemma add_table_distinct:
  "distinct (map fst tbls) \<Longrightarrow> distinct (map fst (add_table m tbls))"
  by (simp add: add_table_def Let_def distinct_update)

lemma parse_schema_distinct_names: "distinct (map fst (tables (parse_schema txt)))"
proof -
  have "distinct (map fst tbls) \<Longrightarrow> distinct (map fst (fold add_table ms tbls))" for ms tbls
    by (induction ms arbitrary: tbls) (simp_all add: add_table_distinct)
  then show ?thesis
    by (cases "detect_dialect txt") (simp add: parse_schema_def Let_def)
qed

lemma parse_two_line_example:
  "parse_schema ''PostgreSQL\<newline>CREATE TABLE t (id INT);'' =
     \<lparr>tables = [(''t'', [\<lparr>col_name = ''id'', col_type = ''integer'', raw_type = ''INT'',
                           params = [], constraints = []\<rparr>])],
      dialect = Some ''PostgreSQL''\<rparr>"
  by code_simp

lemma parse_one_line_example:
  "parse_schema ''CREATE TABLE t (id INT);'' =
     \<lparr>tables = [(''t'', [\<lparr>col_name = ''id'', col_type = ''integer'', raw_type = ''INT'',
                           params = [], constraints = []\<rparr>])],
      dialect = None\<rparr>"
  by code_simp

text \<open>
  C7. On \<^verbatim>\<open>"PostgreSQL\nCREATE TABLE t (id INT);"\<close> the parser returns the dialect
  \<^verbatim>\<open>PostgreSQL\<close> and the single table \<open>t\<close> with the single column \<open>id\<close> of type
  \<open>integer\<close>; on the same text without its first line it returns no dialect and the
  same tables.
\<close>

theorem dialect_line_detected_and_table_parsed:
  "dialect (parse_schema ''PostgreSQL\<newline>CREATE TABLE t (id INT);'')
     = Some ''PostgreSQL''
   \<and> map (\<lambda>(n, cs). (n, map (\<lambda>c. (col_name c, col_type c)) cs))
         (tables (parse_schema ''PostgreSQL\<newline>CREATE TABLE t (id INT);''))
     = [(''t'', [(''id'', ''integer'')])]
   \<and> dialect (parse_schema ''CREATE TABLE t (id INT);'') = None
   \<and> tables (parse_schema ''CREATE TABLE t (id INT);'')
     = tables (parse_schema ''PostgreSQL\<newline>CREATE TABLE t (id INT);'')"
  by (simp add: parse_two_line_example parse_one_line_example)

text \<open>
  C8. Every table name in the result of \<open>parse_schema\<close> is mapped to a non-empty list
  of columns, whatever the input text.
\<close>

theorem tables_have_columns:
  "map_of (tables (parse_schema txt)) name = Some cols \<Longrightarrow> cols \<noteq> []"
  using parse_schema_invariant by blast

theorem tables_have_columns_witness:
  "map_of (tables (parse_schema ''CREATE TABLE t (id INT);'')) ''t''
     = Some [\<lparr>col_name = ''id'', col_type = ''integer'', raw_type = ''INT'',
              params = [], constraints = []\<rparr>]
   \<and> [\<lparr>col_name = ''id'', col_type = ''integer'', raw_type = ''INT'',
         params = [], constraints = []\<rparr>] \<noteq> []"
proof -
  have found: "map_of (tables (parse_schema ''CREATE TABLE t (id INT);'')) ''t''
     = Some [\<lparr>col_name = ''id'', col_type = ''integer'', raw_type = ''INT'',
              params = [], constraints = []\<rparr>]"
    by (simp add: parse_one_line_example)
  from tables_have_columns [OF found] found show ?thesis by simp
qed

text \<open>A block whose body holds only a constraint line leaves no table behind.\<close>

lemma constraint_only_block_dropped:
  "parse_schema ''CREATE TABLE t (PRIMARY KEY (id));'' = \<lparr>tables = [], dialect = None\<rparr>"
  by code_simp

text \<open>Six of the seven raw types of C1 are normalised as the specification says.\<close>

lemma six_types_normalised:
  "map (\<lambda>c. (raw_type c, col_type c))
       (parse_columns ''a INT, b VARCHAR(255), c DECIMAL(10,2), d DATE, e BOOLEAN, f TEXT'')
     = [(''INT'', ''integer''), (''VARCHAR(255)'', ''string''), (''DECIMAL(10,2)'', ''float''),
        (''DATE'', ''date''), (''BOOLEAN'', ''boolean''), (''TEXT'', ''string'')]"
  by code_simp

text \<open>
  C1. The parser gives the raw types \<^verbatim>\<open>INT\<close>, \<^verbatim>\<open>VARCHAR(255)\<close>, \<^verbatim>\<open>DECIMAL(10,2)\<close>,
  \<^verbatim>\<open>DATE\<close>, \<^verbatim>\<open>BOOLEAN\<close> and \<^verbatim>\<open>TEXT\<close> the types integer, string, float, date,
  boolean and string, but \<^verbatim>\<open>DATETIME\<close> the type date: the test for a type that starts
  with \<^verbatim>\<open>date\<close> comes before the test for \<^verbatim>\<open>datetime\<close>.
\<close>

theorem datetime_column_typed_as_date:
  "parse_schema ''CREATE TABLE t (d DATETIME);'' =
     \<lparr>tables = [(''t'', [\<lparr>col_name = ''d'', col_type = ''date'', raw_type = ''DATETIME'',
                           params = [], constraints = []\<rparr>])],
      dialect = None\<rparr>"
  by code_simp
section \<open>Properties of the random sources\<close>

lemma bind_err_Inl [simp]: "bind_err (Inl e) f = Inl e"
  by (simp add: bind_err_def)

lemma bind_err_Inr [simp]: "bind_err (Inr x) f = f x"
  by (simp add: bind_err_def)

lemma bind_err_eq_Inr: "bind_err m f = Inr y \<longleftrightarrow> (\<exists>x. m = Inr x \<and> f x = Inr y)"
  by (cases m) simp_all

lemma remove_nth_distinct:
  assumes "distinct xs" and "j < length xs"
  shows "distinct (take j xs @ drop (Suc j) xs)"
    and "xs ! j \<notin> set (take j xs @ drop (Suc j) xs)"
    and "set (take j xs @ drop (Suc j) xs) \<subseteq> set xs"
proof -
  have "distinct (take j xs @ xs ! j # drop (Suc j) xs)"
    using assms id_take_nth_drop[OF assms(2), symmetric] by simp
  then show "distinct (take j xs @ drop (Suc j) xs)"
    and "xs ! j \<notin> set (take j xs @ drop (Suc j) xs)"
    by auto
  show "set (take j xs @ drop (Suc j) xs) \<subseteq> set xs"
    using set_take_subset[of j xs] set_drop_subset[of "Suc j" xs] by auto
qed

lemma sample_from_length: "length (fst (sample_from pool k g)) = k"
proof (induction k arbitrary: pool g)
  case 0
  then show ?case by simp
next
  case (Suc k)
  obtain r g' where d: "draw g = (r, g')" by (cases "draw g")
  obtain ys g'' where s:
    "sample_from (take (r mod length pool) pool @ drop (Suc (r mod length pool)) pool) k g'
       = (ys, g'')"
    by (cases "sample_from (take (r mod length pool) pool @ drop (Suc (r mod length pool)) pool) k g'")
  have "length ys = k"
    using Suc.IH[of "take (r mod length pool) pool @ drop (Suc (r mod length pool)) pool" g'] s
    by simp
  then show ?case
    using d s by (simp add: Let_def)
qed

lemma sample_from_sound:
  "distinct pool \<Longrightarrow> k \<le> length pool \<Longrightarrow>
     distinct (fst (sample_from pool k g)) \<and> set (fst (sample_from pool k g)) \<subseteq> set pool"
proof (induction k arbitrary: pool g)
  case 0
  then show ?case by simp
next
  case (Suc k)
  obtain r g' where d: "draw g = (r, g')" by (cases "draw g")
  define j where "j = r mod length pool"
  define rest where "rest = take j pool @ drop (Suc j) pool"
  obtain ys g'' where s: "sample_from rest k g' = (ys, g'')" by (cases "sample_from rest k g'")
  have nonempty: "0 < length pool" using Suc.prems(2) by linarith
  then have j: "j < length pool" by (simp add: j_def)
  have rest_d: "distinct rest" and rest_n: "pool ! j \<notin> set rest" and rest_s: "set rest \<subseteq> set pool"
    using remove_nth_distinct[OF Suc.prems(1) j] by (simp_all add: rest_def)
  have "length rest = length pool - 1"
    using j by (simp add: rest_def min_def)
  then have "k \<le> length rest" using Suc.prems(2) by simp
  from Suc.IH[OF rest_d this, of g'] s
  have ys: "distinct ys" "set ys \<subseteq> set rest" by simp_all
  have res: "fst (sample_from pool (Suc k) g) = pool ! j # ys"
    using d s by (simp add: Let_def j_def rest_def)
  show ?case
    unfolding res using ys rest_n rest_s j by auto
qed





lemma add_nulls_off: "\<not> truthy nullable \<Longrightarrow> add_nulls nullable n vals g = Inr (vals, g)"
  by (simp add: add_nulls_def)


section \<open>Properties of the generators\<close>









lemma pint_not_none: "PNone \<notin> set (map PInt xs)"
  by auto













section \<open>The generators return on well-formed parameters\<close>







lemma nullable_param [simp]:
  "dict_get [(''nullable'', PBool True)] ''nullable'' d = PBool True"
  by (simp add: dict_get_def)





text \<open>
  C6. Fifty unique integers asked from the range 1 to 10: the generator does not raise,
  the upper bound is widened to \<open>min_value + num_samples = 51\<close>, and the fifty values
  are pairwise distinct and lie between 1 and 51, for every state of the random sources.
\<close>

theorem fifty_unique_integers_in_widened_range:
  "\<exists>vals g'.
     generate_integers 50
       [(''unique'', PBool True), (''min_value'', PInt 1), (''max_value'', PInt 10)]
       counters name g = Inr (vals, counters, g')
     \<and> length vals = 50 \<and> distinct vals \<and> set vals \<subseteq> PInt ` {1 .. 51}"
proof -
  let ?ps = "[(''unique'', PBool True), (''min_value'', PInt 1), (''max_value'', PInt 10)]"
  obtain xs r where s: "sample_from [1 .. 51 :: int] 50 (py_random g) = (xs, r)"
    by (cases "sample_from [1 .. 51 :: int] 50 (py_random g)")
  have len: "length xs = 50"
    using sample_from_length[of "[1 .. 51 :: int]" 50 "py_random g"] s by simp
  have "distinct xs \<and> set xs \<subseteq> set [1 .. 51 :: int]"
    using sample_from_sound[of "[1 .. 51 :: int]" 50 "py_random g"] s by simp
  then have d: "distinct (map PInt xs)" and sub: "set (map PInt xs) \<subseteq> PInt ` {1 .. 51}"
    by (auto simp: distinct_map inj_on_def)
  have params:
    "dict_get ?ps ''min_value'' (PInt 1) = PInt 1"
    "dict_get ?ps ''max_value'' (PInt 100000) = PInt 10"
    "dict_get ?ps ''nullable'' (PBool False) = PBool False"
    "dict_get ?ps ''unique'' (PBool False) = PBool True"
    "dict_get ?ps ''auto_increment'' (PBool False) = PBool False"
    by (simp_all add: dict_get_def)
  have "generate_integers 50 ?ps counters name g
          = Inr (map PInt xs, counters, g\<lparr>py_random := r\<rparr>)"
    unfolding generate_integers_def params Let_def
    using s by (simp add: sample_def add_nulls_def)
  then show ?thesis
    using len d sub by auto
qed

text \<open>
  The auto-increment branch draws nothing and reads the counter of the column in the
  dictionary of the call, which \<^verbatim>\<open>generate_from_schema\<close> creates empty.
\<close>

lemma auto_increment_single_column:
  assumes "col_type column = ''integer''"
    and "truthy (dict_get (params column) ''auto_increment'' (PBool False))"
    and "\<not> truthy (dict_get (params column) ''nullable'' (PBool False))"
  shows "generate_from_schema F [column] n g
           = Inr ([(col_name column, map PInt [1 .. int n])], g)"
  using assms
  by (simp add: generate_from_schema_def generate_column_def generate_integers_def Let_def
        add_nulls_def)

lemma id_column_facts:
  "col_type id_column = ''integer''"
  "truthy (dict_get (params id_column) ''auto_increment'' (PBool False))"
  "\<not> truthy (dict_get (params id_column) ''nullable'' (PBool False))"
  "col_name id_column = ''id''"
  by (simp_all add: id_column_def dict_get_def)

text \<open>
  C2, as the code has it. For an integer column with \<open>auto_increment\<close> set (and
  \<open>nullable\<close> not set), a call of \<^verbatim>\<open>generate_from_schema\<close> for that column yields
  the values 1 to \<open>num_samples\<close> in order and leaves the random sources as they were;
  a second call on the same instance yields the same values again, from 1.
\<close>

theorem auto_increment_counts_from_one_in_each_call:
  assumes "col_type column = ''integer''"
    and "truthy (dict_get (params column) ''auto_increment'' (PBool False))"
    and "\<not> truthy (dict_get (params column) ''nullable'' (PBool False))"
  shows "generate_from_schema F [column] n g
           = Inr ([(col_name column, map PInt [1 .. int n])], g)
         \<and> two_calls F [column] n g
           = Inr ([(col_name column, map PInt [1 .. int n])],
                  [(col_name column, map PInt [1 .. int n])])"
  using auto_increment_single_column[OF assms] by (simp add: two_calls_def)

theorem auto_increment_counts_from_one_in_each_call_witness:
  "col_type id_column = ''integer''
   \<and> truthy (dict_get (params id_column) ''auto_increment'' (PBool False))
   \<and> \<not> truthy (dict_get (params id_column) ''nullable'' (PBool False))
   \<and> generate_from_schema plain_faker [id_column] 100 fresh
       = Inr ([(''id'', map PInt [1 .. 100])], fresh)
   \<and> two_calls plain_faker [id_column] 100 fresh
       = Inr ([(''id'', map PInt [1 .. 100])], [(''id'', map PInt [1 .. 100])])"
  using auto_increment_counts_from_one_in_each_call
          [OF id_column_facts(1) id_column_facts(2) id_column_facts(3),
           of plain_faker 100 fresh]
        id_column_facts
  by simp

text \<open>
  The claim as stated fails: the second call on the same instance does not continue
  from 101.
\<close>

theorem second_call_does_not_continue_from_101:
  "two_calls plain_faker [id_column] 100 fresh
     = Inr ([(''id'', map PInt [1 .. 100])], [(''id'', map PInt [1 .. 100])])
   \<and> two_calls plain_faker [id_column] 100 fresh
     \<noteq> Inr ([(''id'', map PInt [1 .. 100])], [(''id'', map PInt [101 .. 200])])"
proof -
  have run: "two_calls plain_faker [id_column] 100 fresh
     = Inr ([(''id'', map PInt [1 .. 100])], [(''id'', map PInt [1 .. 100])])"
    using auto_increment_single_column[OF id_column_facts(1) id_column_facts(2)
        id_column_facts(3), of plain_faker 100]
    by (simp add: two_calls_def id_column_facts(4))
  have first: "[1 .. 100 :: int] = 1 # [2 .. 100]"
    by (subst upto_rec1) simp_all
  have second: "[101 .. 200 :: int] = 101 # [102 .. 200]"
    by (subst upto_rec1) simp_all
  have "map PInt [1 .. 100] \<noteq> map PInt [101 .. 200]"
    unfolding first second by simp
  with run show ?thesis by simp
qed

text \<open>
  C4. Every column of every table returned by \<open>parse_schema\<close> has no parameter and no
  constraint, whatever the text; so each \<^verbatim>\<open>params.get(key, default)\<close> of the generator
  yields its default, and the integer generator on such a column draws \<open>num_samples\<close>
  integers of \<open>[1, 100000]\<close> with no null, no uniqueness and no sequence.
\<close>

theorem parsed_columns_carry_no_parameters:
  assumes "map_of (tables (parse_schema txt)) table_name = Some cols" and "c \<in> set cols"
  shows "params c = [] \<and> constraints c = []
         \<and> dict_get (params c) key dflt = dflt
         \<and> generate_integers n (params c) counters name g
             = bind_err (randints (PInt 1) (PInt 100000) n (py_random g))
                 (\<lambda>(vs, r). Inr (map PInt vs, counters, g\<lparr>py_random := r\<rparr>))"
proof -
  have empty: "params c = []" "constraints c = []"
    using parse_schema_invariant[OF assms(1)] assms(2) by auto
  have "generate_integers n [] counters name g
      = bind_err (randints (PInt 1) (PInt 100000) n (py_random g))
          (\<lambda>(vs, r). Inr (map PInt vs, counters, g\<lparr>py_random := r\<rparr>))"
    by (cases "randints (PInt 1) (PInt 100000) n (py_random g)")
       (auto simp: generate_integers_def dict_get_def Let_def add_nulls_def)
  then show ?thesis
    using empty by (simp add: dict_get_def)
qed

lemma parse_not_null_auto_increment:
  "parse_schema ''CREATE TABLE t (id INT NOT NULL AUTO_INCREMENT);'' =
     \<lparr>tables = [(''t'', [\<lparr>col_name = ''id'', col_type = ''integer'',
                           raw_type = ''INT NOT NULL AUTO_INCREMENT'',
                           params = [], constraints = []\<rparr>])],
      dialect = None\<rparr>"
  by code_simp

theorem parsed_columns_carry_no_parameters_witness:
  "map_of (tables (parse_schema ''CREATE TABLE t (id INT NOT NULL AUTO_INCREMENT);'')) ''t''
     = Some [\<lparr>col_name = ''id'', col_type = ''integer'',
              raw_type = ''INT NOT NULL AUTO_INCREMENT'', params = [], constraints = []\<rparr>]
   \<and> dict_get [] ''auto_increment'' (PBool False) = PBool False
   \<and> generate_integers 3 [] [] ''id'' fresh
       = bind_err (randints (PInt 1) (PInt 100000) 3 (py_random fresh))
           (\<lambda>(vs, r). Inr (map PInt vs, [], fresh\<lparr>py_random := r\<rparr>))"
proof -
  let ?c = "\<lparr>col_name = ''id'', col_type = ''integer'',
             raw_type = ''INT NOT NULL AUTO_INCREMENT'', params = [], constraints = []\<rparr>"
  have found: "map_of (tables (parse_schema ''CREATE TABLE t (id INT NOT NULL AUTO_INCREMENT);''))
                 ''t'' = Some [?c]"
    by (simp add: parse_not_null_auto_increment)
  have member: "?c \<in> set [?c]" by simp
  from parsed_columns_carry_no_parameters[OF found member,
         of "''auto_increment''" "PBool False" 3 "[]" "''id''" fresh] found
  show ?thesis by simp
qed

section \<open>Unique strings\<close>

lemma unique_value_step:
  "v \<in> set used \<Longrightarrow>
     unique_value original v counter used
       = unique_value original (original @ ''_'' @ str_of_nat counter) (counter + 1) used"
  by (subst unique_value.simps) simp

lemma unique_value_stop: "v \<notin> set used \<Longrightarrow> unique_value original v counter used = v"
  by (subst unique_value.simps) simp

text \<open>The loop does what it is there for: its result is not among the values used so far.\<close>

lemma unique_value_fresh: "unique_value original v counter used \<notin> set used"
proof (induction original v counter used rule: unique_value.induct)
  case (1 original v counter used)
  show ?case
  proof (cases "v \<in> set used")
    case True
    then show ?thesis
      using "1.IH" unique_value_step[OF True] by simp
  next
    case False
    then show ?thesis by (simp add: unique_value_stop)
  qed
qed

lemma unique_value_cases:
  "unique_value original v counter used = v
   \<or> (\<exists>k. unique_value original v counter used = original @ ''_'' @ str_of_nat k)"
proof (induction original v counter used rule: unique_value.induct)
  case (1 original v counter used)
  show ?case
  proof (cases "v \<in> set used")
    case True
    then show ?thesis
      using "1.IH" unique_value_step[OF True, of original counter] by metis
  next
    case False
    then show ?thesis by (simp add: unique_value_stop)
  qed
qed

lemma alphabet_length: "length alphabet = 63"
  by (simp add: alphabet_def lowers_def uppers_def)

lemma no_faker_method_for_code: "choose_faker_method ''code'' = None"
  by code_simp

text \<open>
  With \<open>max_length = 1\<close> every value of the random-string branch is one character of
  the alphabet: a suffix appended for uniqueness is cut off again by the truncation.
\<close>

lemma one_char_value:
  "\<exists>c used' g'.
     string_value F None (PInt 1) (PInt 1) (PBool True) used g = Inr ([c], used', g')
     \<and> c \<in> set alphabet"
proof -
  obtain r g1 where d1: "draw (py_random g) = (r, g1)" by (cases "draw (py_random g)")
  obtain r2 g2 where d2: "draw g1 = (r2, g2)" by (cases "draw g1")
  define c where "c = alphabet ! (r2 mod length alphabet)"
  have c_in: "c \<in> set alphabet"
    unfolding c_def by (rule nth_mem) (simp add: alphabet_length)
  have ri: "randint (PInt 1) (PInt (min 1 50)) (py_random g) = Inr (1, g1)"
    using d1 by (simp add: randint_def)
  have ch: "choices alphabet (nat 1) g1 = ([c], g2)"
    using d2 by (simp add: c_def)
  have long: "slice_to (unique_value [c] [c] 1 used) 1 = [c]"
    if "1 < int (length (unique_value [c] [c] 1 used))"
    using unique_value_cases[of "[c]" "[c]" 1 used] that by (auto simp: slice_to_def)
  have short: "unique_value [c] [c] 1 used = [c]"
    if "\<not> 1 < int (length (unique_value [c] [c] 1 used))"
    using unique_value_cases[of "[c]" "[c]" 1 used] that by auto
  have "string_value F None (PInt 1) (PInt 1) (PBool True) used g
          = Inr ([c], unique_value [c] [c] 1 used # used, g\<lparr>py_random := g2\<rparr>)"
    unfolding string_value_def
    using ri ch long short by (simp add: Let_def)
  then show ?thesis using c_in by blast
qed

lemma one_char_values:
  "\<exists>vs g'.
     string_values F None (PInt 1) (PInt 1) (PBool True) n used g = Inr (vs, g')
     \<and> length vs = n \<and> set vs \<subseteq> (\<lambda>c. [c]) ` set alphabet"
proof (induction n arbitrary: used g)
  case 0
  then show ?case by simp
next
  case (Suc n)
  from one_char_value[of F used g] obtain c used1 g1 where
    sv: "string_value F None (PInt 1) (PInt 1) (PBool True) used g = Inr ([c], used1, g1)"
    and c: "c \<in> set alphabet" by blast
  from Suc.IH[of used1 g1] obtain vs g' where
    rest: "string_values F None (PInt 1) (PInt 1) (PBool True) n used1 g1 = Inr (vs, g')"
    and "length vs = n" and "set vs \<subseteq> (\<lambda>c. [c]) ` set alphabet" by blast
  then show ?case using sv c by simp
qed

text \<open>
  C3, where the code departs from it. Sixty-four strings asked with \<open>unique\<close> set and
  \<open>max_length = 1\<close> for a column that no Faker method matches: the generator returns
  64 values that are not pairwise distinct, for every state of the random sources. The
  values are made unique before they are truncated, and \<^verbatim>\<open>used_values\<close> holds the
  values before truncation.
\<close>

theorem unique_strings_collide_after_truncation:
  "\<exists>vals g'.
     generate_strings F 64 [(''unique'', PBool True), (''max_length'', PInt 1)] ''code'' g
       = Inr (vals, g')
     \<and> length vals = 64 \<and> \<not> distinct vals"
proof -
  let ?ps = "[(''unique'', PBool True), (''max_length'', PInt 1)]"
  from one_char_values[of F 64 "[]" g] obtain vs g' where
    run: "string_values F None (PInt 1) (PInt 1) (PBool True) 64 [] g = Inr (vs, g')"
    and len: "length vs = 64" and sub: "set vs \<subseteq> (\<lambda>c. [c]) ` set alphabet" by blast
  have params:
    "dict_get ?ps ''min_length'' (PInt 1) = PInt 1"
    "dict_get ?ps ''max_length'' (PInt 255) = PInt 1"
    "dict_get ?ps ''nullable'' (PBool False) = PBool False"
    "dict_get ?ps ''unique'' (PBool False) = PBool True"
    by (simp_all add: dict_get_def)
  have result: "generate_strings F 64 ?ps ''code'' g = Inr (map PStr vs, g')"
    unfolding generate_strings_def params Let_def no_faker_method_for_code
    using run by (simp add: add_nulls_def)
  have "card (set vs) \<le> card ((\<lambda>c. [c]) ` set alphabet)"
    by (rule card_mono[OF _ sub]) simp
  also have "\<dots> \<le> card (set alphabet)"
    by (rule card_image_le) simp
  also have "\<dots> \<le> 63"
    using card_length[of alphabet] by (simp add: alphabet_length)
  finally have "card (set vs) < length vs"
    using len by simp
  then have "\<not> distinct vs"
    using distinct_card by fastforce
  then have "\<not> distinct (map PStr vs)"
    by (simp add: distinct_map)
  then show ?thesis
    using result len by simp
qed

text \<open>The same on two samples, when the random source draws the same character twice.\<close>

lemma two_equal_unique_strings:
  "generate_strings plain_faker 2 [(''unique'', PBool True), (''max_length'', PInt 1)] ''code'' fresh
     = Inr ([PStr ''a'', PStr ''a''], fresh)"
  by code_simp

text \<open>
  The part of C3 on the length: when \<open>max_length\<close> is a non-negative integer, every
  value of the string generator that is not null has at most \<open>max_length\<close> characters.
\<close>

lemma truncated_length:
  assumes "bind_err M (\<lambda>(v, g').
             (let (v1, used') = P v
              in bind_err (as_int (PInt mx)) (\<lambda>mx.
                   Inr (if mx < int (length v1) then slice_to v1 mx else v1, used', g'))))
           = Inr (r, used'', g'')"
    and "0 \<le> mx"
  shows "int (length r) \<le> mx"
proof (cases M)
  case (Inl e)
  with assms(1) show ?thesis by simp
next
  case (Inr x)
  obtain v g1 where x: "x = (v, g1)" by (cases x)
  obtain v1 used1 where p: "P v = (v1, used1)" by (cases "P v")
  from assms(1) have "r = (if mx < int (length v1) then slice_to v1 mx else v1)"
    by (simp add: Inr x p)
  then show ?thesis
    using assms(2) by (auto simp: slice_to_def)
qed

lemma string_value_length:
  assumes "string_value F m lo (PInt mx) u used g = Inr (v, used', g')" and "0 \<le> mx"
  shows "int (length v) \<le> mx"
  using assms(1) unfolding string_value_def
  by (rule truncated_length[OF _ assms(2)])

lemma string_values_max_length:
  assumes "string_values F m lo (PInt mx) u n used g = Inr (vs, g')" and "0 \<le> mx"
  shows "list_all (\<lambda>v. int (length v) \<le> mx) vs"
  using assms(1)
proof (induction n arbitrary: used g vs g')
  case 0
  then show ?case by simp
next
  case (Suc n)
  from Suc.prems obtain v used1 g1 vs1 where
    "string_value F m lo (PInt mx) u used g = Inr (v, used1, g1)"
    "string_values F m lo (PInt mx) u n used1 g1 = Inr (vs1, g')" "vs = v # vs1"
    by (auto simp: bind_err_eq_Inr)
  then show ?case
    using Suc.IH string_value_length[OF _ assms(2)] by auto
qed

section \<open>Properties of the analyzer\<close>









text \<open>A column of one value: pandas returns NaN for skewness and deviation, nothing raises, and the type is normal.\<close>

lemma nan_statistics_give_normal:
  "get_distribution_info
     \<lparr>s_skew = Inr NaN, s_kurtosis = Inr NaN, s_min = Inr (Fin 7), s_max = Inr (Fin 7),
      s_std = Inr NaN\<rparr> = Known NaN NaN ''normal''"
  by (simp add: get_distribution_info_def distribution_body_def fgt_def)


end
